theory Spec2Isabelle
  imports Main "HOL-Library.Word"
begin

unbundle bit_operations_syntax

section \<open>ADS1115 demo driver: constants\<close>

text \<open>
  The driver is Python: its integers are unbounded and are modelled as \<open>int\<close>.
  Python's \<open>&\<close>, \<open>|\<close>, \<open><<\<close> and \<open>>>\<close> on integers are \<open>AND\<close>, \<open>OR\<close>,
  \<open>push_bit\<close> and \<open>drop_bit\<close> on \<open>int\<close> (both sides use the infinite
  two's-complement reading of negative numbers, and \<open>>>\<close> rounds down).
\<close>

definition addr :: int where
  "addr = 0x48"

definition DEVICE_REG_CONVERSION :: int where
  "DEVICE_REG_CONVERSION = 0x00"

definition DEVICE_REG_CONFIG :: int where
  "DEVICE_REG_CONFIG = 0x01"

definition CONFIG_OS :: int where
  "CONFIG_OS = 0x8000"

definition CONFIG_OS_START :: int where
  "CONFIG_OS_START = 0x8000"

definition CONFIG_OS_PERFORMING_CONVERSION :: int where
  "CONFIG_OS_PERFORMING_CONVERSION = 0x0000"

definition CONFIG_MUX_AIN0P_GNDN :: int where
  "CONFIG_MUX_AIN0P_GNDN = 0x4000"

definition CONFIG_FSR_4V096 :: int where
  "CONFIG_FSR_4V096 = 0x0200"

definition CONFIG_MODE_SINGLE_SHOT :: int where
  "CONFIG_MODE_SINGLE_SHOT = 0x0100"

definition CONFIG_DATA_RATE_128SPS :: int where
  "CONFIG_DATA_RATE_128SPS = 0x0080"

definition CONFIG_COMP_MODE_TRADITIONAL :: int where
  "CONFIG_COMP_MODE_TRADITIONAL = 0x0000"

definition CONFIG_COMP_POL_ACTIVE_LOW :: int where
  "CONFIG_COMP_POL_ACTIVE_LOW = 0x0000"

definition CONFIG_COMP_LAT_NON_LATCHING :: int where
  "CONFIG_COMP_LAT_NON_LATCHING = 0x0000"

definition CONFIG_COMP_QUE_DISABLE :: int where
  "CONFIG_COMP_QUE_DISABLE = 0x0003"

lemmas config_consts =
  CONFIG_OS_def CONFIG_OS_START_def CONFIG_OS_PERFORMING_CONVERSION_def
  CONFIG_MUX_AIN0P_GNDN_def CONFIG_FSR_4V096_def CONFIG_MODE_SINGLE_SHOT_def
  CONFIG_DATA_RATE_128SPS_def CONFIG_COMP_MODE_TRADITIONAL_def
  CONFIG_COMP_POL_ACTIVE_LOW_def CONFIG_COMP_LAT_NON_LATCHING_def
  CONFIG_COMP_QUE_DISABLE_def

section \<open>The byte swap\<close>

text \<open>\<^verbatim>\<open>def swap(a): return ((a&0xff00)>>8)|((a&0x00ff)<<8)\<close>\<close>

definition swap :: "int \<Rightarrow> int" where
  "swap a = drop_bit 8 (a AND 0xff00) OR push_bit 8 (a AND 0x00ff)"

section \<open>The configuration word\<close>

text \<open>
  The ten terms that \<open>readAdc\<close> adds up to build its read command, in the order of
  the source, and the command itself (the sum as the source writes it).
\<close>

definition config_terms :: "int \<Rightarrow> int list" where
  "config_terms channel =
     [CONFIG_OS_START,
      CONFIG_MUX_AIN0P_GNDN,
      push_bit 12 channel,
      CONFIG_FSR_4V096,
      CONFIG_MODE_SINGLE_SHOT,
      CONFIG_DATA_RATE_128SPS,
      CONFIG_COMP_MODE_TRADITIONAL,
      CONFIG_COMP_POL_ACTIVE_LOW,
      CONFIG_COMP_LAT_NON_LATCHING,
      CONFIG_COMP_QUE_DISABLE]"

definition config_word :: "int \<Rightarrow> int" where
  "config_word channel =
     CONFIG_OS_START +
     CONFIG_MUX_AIN0P_GNDN +
     push_bit 12 channel +
     CONFIG_FSR_4V096 +
     CONFIG_MODE_SINGLE_SHOT +
     CONFIG_DATA_RATE_128SPS +
     CONFIG_COMP_MODE_TRADITIONAL +
     CONFIG_COMP_POL_ACTIVE_LOW +
     CONFIG_COMP_LAT_NON_LATCHING +
     CONFIG_COMP_QUE_DISABLE"

text \<open>No set bit is shared by any two entries of a list of bit patterns.\<close>

fun disjoint_bits :: "int list \<Rightarrow> bool" where
  "disjoint_bits [] = True"
| "disjoint_bits (x # xs) = (list_all (\<lambda>y. x AND y = 0) xs \<and> disjoint_bits xs)"

section \<open>The bus\<close>

text \<open>
  The source talks to the device through the global SMBus handle \<open>bus\<close>, by
  \<open>bus.write_word_data(addr, register, value)\<close> and
  \<open>bus.read_word_data(addr, register)\<close>. Either call returns normally or raises
  (an \<open>IOError\<close> carrying an errno when the transfer fails). The handle is modelled
  as a pair of functions over an explicit bus state \<open>'s\<close>: each call returns its
  outcome (\<open>Inl\<close> the exception raised, \<open>Inr\<close> the value returned) and the next state.
\<close>

datatype py_exception = IOError int

record 's bus =
  write_word_data :: "'s \<Rightarrow> int \<Rightarrow> int \<Rightarrow> int \<Rightarrow> (py_exception + unit) \<times> 's"
  read_word_data :: "'s \<Rightarrow> int \<Rightarrow> int \<Rightarrow> (py_exception + int) \<times> 's"

section \<open>readAdc\<close>

text \<open>
  The wait loop of \<open>readAdc\<close>:
  \<^verbatim>\<open>
  while (True):
      status=swap(bus.read_word_data(addr,DEVICE_REG_CONFIG))
      if (status & CONFIG_OS) != CONFIG_OS_PERFORMING_CONVERSION:
          break
  \<close>
  The loop has no bound, so it is a partial function: \<open>None\<close> is the loop that never
  leaves. An exception raised by the read leaves the loop (and \<open>readAdc\<close>) with it.
\<close>

partial_function (option) wait_conversion ::
  "'s bus \<Rightarrow> 's \<Rightarrow> ((py_exception + unit) \<times> 's) option" where
  "wait_conversion bus s =
     (case read_word_data bus s addr DEVICE_REG_CONFIG of
        (Inl e, s') \<Rightarrow> Some (Inl e, s')
      | (Inr w, s') \<Rightarrow>
          (let status = swap w in
           if status AND CONFIG_OS \<noteq> CONFIG_OS_PERFORMING_CONVERSION
           then Some (Inr (), s')
           else wait_conversion bus s'))"

declare wait_conversion.simps [code]

text \<open>
  \<open>readAdc channel\<close>: the sanity check returning \<open>-1\<close>, the read command, its
  byte-swapped write to the config register, the wait loop, and the byte-swapped read
  of the conversion register, whose value is returned as it is. No exception is caught:
  one raised by a bus call is the outcome of \<open>readAdc\<close>.
\<close>

definition readAdc :: "'s bus \<Rightarrow> 's \<Rightarrow> int \<Rightarrow> ((py_exception + int) \<times> 's) option" where
  "readAdc bus s channel =
     (if channel > 3 \<or> channel < 0 then Some (Inr (- 1), s)
      else
        let config = config_word channel in
        case write_word_data bus s addr DEVICE_REG_CONFIG (swap config) of
          (Inl e, s1) \<Rightarrow> Some (Inl e, s1)
        | (Inr _, s1) \<Rightarrow>
            (case wait_conversion bus s1 of
               None \<Rightarrow> None
             | Some (Inl e, s2) \<Rightarrow> Some (Inl e, s2)
             | Some (Inr _, s2) \<Rightarrow>
                 (case read_word_data bus s2 addr DEVICE_REG_CONVERSION of
                    (Inl e, s3) \<Rightarrow> Some (Inl e, s3)
                  | (Inr w, s3) \<Rightarrow> (let result = swap w in Some (Inr result, s3)))))"

section \<open>Observing the bus\<close>

text \<open>
  A bus that also keeps the list of the calls made on it, oldest first. Running
  \<open>readAdc\<close> on \<open>recording bus\<close> from \<open>(s, [])\<close> yields the calls \<open>readAdc\<close> made.
\<close>

datatype bus_call = Write_word int int int | Read_word int int

definition recording :: "'s bus \<Rightarrow> ('s \<times> bus_call list) bus" where
  "recording bus =
     \<lparr> write_word_data = (\<lambda>(s, calls) a r v.
          case write_word_data bus s a r v of
            (res, s') \<Rightarrow> (res, (s', calls @ [Write_word a r v]))),
       read_word_data = (\<lambda>(s, calls) a r.
          case read_word_data bus s a r of
            (res, s') \<Rightarrow> (res, (s', calls @ [Read_word a r]))) \<rparr>"

text \<open>
  The status reads of the wait loop, seen from the state \<open>s\<close> the loop starts in:
  the state before the \<open>k\<close>-th read (counting from 0) and the outcome of that read.
\<close>

primrec status_state :: "'s bus \<Rightarrow> 's \<Rightarrow> nat \<Rightarrow> 's" where
  "status_state bus s 0 = s"
| "status_state bus s (Suc k) =
     status_state bus (snd (read_word_data bus s addr DEVICE_REG_CONFIG)) k"

definition status_reply :: "'s bus \<Rightarrow> 's \<Rightarrow> nat \<Rightarrow> py_exception + int" where
  "status_reply bus s k = fst (read_word_data bus (status_state bus s k) addr DEVICE_REG_CONFIG)"

text \<open>
  A scripted bus for concrete runs. Its state counts the status reads made so far; a
  write has the fixed outcome \<open>wr\<close>, the \<open>n\<close>-th read of the config register has the
  outcome \<open>status n\<close>, a read of any other register the outcome \<open>conv\<close>.
\<close>

definition stub_bus ::
  "(py_exception + unit) \<Rightarrow> (nat \<Rightarrow> py_exception + int) \<Rightarrow> (py_exception + int) \<Rightarrow> nat bus" where
  "stub_bus wr status conv =
     \<lparr> write_word_data = (\<lambda>n a r v. (wr, n)),
       read_word_data = (\<lambda>n a r.
          if r = DEVICE_REG_CONFIG then (status n, Suc n) else (conv, n)) \<rparr>"

text \<open>Status scripts: busy (wire word 0) for the first \<open>m\<close> reads and idle (wire word
  \<open>0x0080\<close>, bit 15 after the swap) from then on; and busy for ever.\<close>

definition idle_after :: "nat \<Rightarrow> nat \<Rightarrow> py_exception + int" where
  "idle_after m n = Inr (if n < m then 0x0000 else 0x0080)"

definition always_busy :: "nat \<Rightarrow> py_exception + int" where
  "always_busy n = Inr 0x0000"

text \<open>
  The reading the specification gives to a conversion result: the 16-bit word as a
  two's-complement signed integer. It is used only to compare \<open>readAdc\<close> with.
\<close>

definition spec_int16 :: "int \<Rightarrow> int" where
  "spec_int16 x = sint (word_of_int x :: 16 word)"

section \<open>The byte swap: properties\<close>

lemma mask_ff00: "(0xff00::int) = push_bit 8 (mask 8)"
  by (simp add: mask_eq_exp_minus_1)

lemma mask_00ff: "(0x00ff::int) = mask 8"
  by (simp add: mask_eq_exp_minus_1)

lemma bit_swap_iff:
  "bit (swap a) n \<longleftrightarrow> (n < 8 \<and> bit a (8 + n)) \<or> (8 \<le> n \<and> n < 16 \<and> bit a (n - 8))"
  by (auto simp add: swap_def mask_ff00 mask_00ff bit_simps add.commute)

lemma take_bit_swap: "take_bit 16 (swap a) = swap a"
  by (rule bit_eqI) (auto simp add: bit_simps bit_swap_iff)

lemma swap_range: "0 \<le> swap a \<and> swap a < 65536"
proof -
  have "0 \<le> take_bit 16 (swap a)"
    by simp
  moreover have "take_bit 16 (swap a) < 2 ^ 16"
    by (rule take_bit_int_less_exp)
  ultimately show ?thesis
    by (simp add: take_bit_swap)
qed

lemma swap_swap_take_bit: "swap (swap a) = take_bit 16 a"
  by (rule bit_eqI) (auto simp add: bit_simps bit_swap_iff)

lemma os_test_iff_bit:
  "(x AND CONFIG_OS \<noteq> CONFIG_OS_PERFORMING_CONVERSION) \<longleftrightarrow> bit x 15"
proof -
  have "(0x8000::int) = 2 ^ 15"
    by simp
  then show ?thesis
    unfolding CONFIG_OS_def CONFIG_OS_PERFORMING_CONVERSION_def
    by (simp only: and_exp_eq_0_iff_not_bit) simp
qed

text \<open>
  C3. For every 16-bit value \<open>x\<close> (\<open>0 \<le> x \<le> 0xFFFF\<close>), swapping twice gives \<open>x\<close> back,
  and the swapped value is again a 16-bit value.
\<close>

theorem C3_swap_involution:
  "0 \<le> x \<Longrightarrow> x \<le> 0xFFFF \<Longrightarrow> swap (swap x) = x \<and> 0 \<le> swap x \<and> swap x \<le> 0xFFFF"
proof -
  assume "0 \<le> x" and "x \<le> 0xFFFF"
  then have "take_bit 16 x = x"
    by (simp add: take_bit_int_eq_self)
  then have "swap (swap x) = x"
    by (simp add: swap_swap_take_bit)
  moreover have "0 \<le> swap x \<and> swap x \<le> 0xFFFF"
    using swap_range [of x] by simp
  ultimately show ?thesis
    by simp
qed

theorem C3_swap_involution_witness:
  "(0::int) \<le> 0x1234 \<and> (0x1234::int) \<le> 0xFFFF \<and> swap (swap 0x1234) = 0x1234
   \<and> swap 0x1234 = 0x3412"
  using C3_swap_involution [of "0x1234"] by (simp add: swap_def)

section \<open>The configuration word: properties\<close>

lemma valid_channel_cases:
  "0 \<le> (channel::int) \<Longrightarrow> channel \<le> 3 \<Longrightarrow> channel = 0 \<or> channel = 1 \<or> channel = 2 \<or> channel = 3"
  by arith

lemma config_word_sum: "config_word channel = sum_list (config_terms channel)"
  by (simp add: config_word_def config_terms_def)

text \<open>
  C2. For every channel in \<open>{0,1,2,3}\<close>, bits 12 to 14 of the configuration word hold
  the single-ended mux code \<open>4 + channel\<close>, and bit 15 is 1.
\<close>

theorem C2_config_mux_and_start:
  "0 \<le> channel \<Longrightarrow> channel \<le> 3 \<Longrightarrow>
     drop_bit 12 (config_word channel) AND 7 = 4 + channel \<and> bit (config_word channel) 15"
  using valid_channel_cases [of channel]
  by (auto simp add: config_word_def config_consts)

theorem C2_config_mux_and_start_witness:
  "(0::int) \<le> 3 \<and> (3::int) \<le> 3 \<and> drop_bit 12 (config_word 3) AND 7 = 7 \<and> bit (config_word 3) 15"
  using C2_config_mux_and_start [of 3] by simp

text \<open>
  C4. For channel 2, with the driver's fixed 4.096 V range and 128 samples per second,
  the configuration word before the byte swap is \<open>0xE383\<close>, which is
  \<open>0x8000 | 0x6000 | 0x0200 | 0x0100 | 0x0080 | 0x0003\<close>.
\<close>

theorem C4_config_channel_2:
  "config_word 2 = 0xE383 \<and>
   config_word 2 = (0x8000 OR 0x6000 OR 0x0200 OR 0x0100 OR 0x0080 OR 0x0003)"
  by (simp add: config_word_def config_consts)

text \<open>
  C9. For every channel in \<open>{0,1,2,3}\<close>, the sum the driver computes equals the bitwise
  OR of the same ten terms (the nine field constants and the shifted channel), and no
  two of the terms share a set bit.
\<close>

theorem C9_config_sum_is_union:
  "0 \<le> channel \<Longrightarrow> channel \<le> 3 \<Longrightarrow>
     config_word channel = sum_list (config_terms channel) \<and>
     config_word channel = foldr (OR) (config_terms channel) 0 \<and>
     config_word channel =
       (CONFIG_OS_START OR CONFIG_MUX_AIN0P_GNDN OR push_bit 12 channel OR
        CONFIG_FSR_4V096 OR CONFIG_MODE_SINGLE_SHOT OR CONFIG_DATA_RATE_128SPS OR
        CONFIG_COMP_MODE_TRADITIONAL OR CONFIG_COMP_POL_ACTIVE_LOW OR
        CONFIG_COMP_LAT_NON_LATCHING OR CONFIG_COMP_QUE_DISABLE) \<and>
     disjoint_bits (config_terms channel)"
  using valid_channel_cases [of channel]
  by (auto simp add: config_word_def config_terms_def config_consts)

theorem C9_config_sum_is_union_witness:
  "(0::int) \<le> 1 \<and> (1::int) \<le> 3 \<and>
   config_word 1 = foldr (OR) (config_terms 1) 0 \<and> disjoint_bits (config_terms 1) \<and>
   config_word 1 = 0xD383"
  using C9_config_sum_is_union [of 1] by (simp add: config_word_def config_consts)

end
